theory Spec2Isabelle
  imports Main "HOL-Library.Sublist"
begin

section \<open>Data model of \<open>src/bin/index.js\<close>\<close>

text \<open>
  Paths are absolute and normalised: a path is the list of its components, the root
  being \<open>[]\<close>. \<open>path.join(p, s)\<close> with a single name \<open>s\<close> appends one component.
  Where the code interpolates a path into a command line or a message, the path is
  rendered with \<open>/\<close> separators.
\<close>

type_synonym filepath = "string list"

definition render :: "filepath \<Rightarrow> string" where
  "render p = (if p = [] then ''/'' else concat (map (\<lambda>c. ''/'' @ c) p))"

definition path_join :: "filepath \<Rightarrow> string \<Rightarrow> filepath" where
  "path_join p s = p @ [s]"

text \<open>The object kept in \<open>config.json\<close>.\<close>

record config =
  flowDir :: filepath
  flowCommandDir :: filepath
  terminalProfile :: string
  defaultFlowPath :: string
  initialized :: bool

text \<open>One element of the array kept in \<open>flows.json\<close>: \<open>{name, path, script}\<close>.\<close>

record flow =
  name :: string
  path :: filepath
  script :: filepath

text \<open>
  Errors thrown by the runtime and by the code itself. \<open>LoadConfigFailed e\<close> and
  \<open>SaveConfigFailed e\<close> are the errors that \<open>loadConfig\<close> and \<open>saveConfig\<close> construct
  around the message of \<open>e\<close>; \<open>ChildFailed m\<close> is the error of a child process (spawn
  failure or non-zero exit) with message \<open>m\<close>.
\<close>

datatype js_error =
    ENOENT | EACCES | EISDIR | ENOTDIR | EEXIST | ENOSPC
  | SyntaxError | TypeError
  | LoadConfigFailed js_error
  | SaveConfigFailed js_error
  | ChildFailed string

text \<open>
  A JSON value that is not an array: \<open>null\<close>, or any other value \<open>v\<close> (an object, a
  string, a number, a boolean). Of such a \<open>v\<close> the program evaluates only
  \<open>v.length === 0\<close> and \<open>v.length > 0\<close> and calls the array methods \<open>find\<close>,
  \<open>findIndex\<close>, \<open>push\<close> and \<open>forEach\<close>, which \<open>v\<close> does not have; \<open>JValue z p\<close> is
  such a value with \<open>z\<close> and \<open>p\<close> the results of the two comparisons (both false for
  \<open>{}\<close>, for a number and for a boolean).
\<close>

datatype json_other = JNull | JValue bool bool

text \<open>What \<open>JSON.parse\<close> yields for the text of a registry file: an array of flow records
  or another value.\<close>

datatype flows_value = FlowArray "flow list" | NotArray json_other

text \<open>
  File contents, kept by what \<open>JSON.parse\<close> makes of the text. \<open>NotJson s\<close> is a text
  \<open>s\<close> that is not JSON, such as a generated script, which starts with \<open>#\<close> or
  \<open>@\<close>: \<open>JSON.parse\<close> throws a \<open>SyntaxError\<close> on it. \<open>FlowsDoc fl\<close> is the JSON text of
  the array \<open>fl\<close> of flow records, each with its three string members, as the program
  itself writes it (\<open>JSON.stringify\<close> followed by \<open>JSON.parse\<close> gives the array back). \<open>JsonDoc v\<close> is the JSON text of a value that is not an array, such as
  \<open>{}\<close> or \<open>null\<close>. \<open>Partial\<close> is what a write that broke off leaves of a file: nothing
  or a beginning of the data, which is not JSON either.
\<close>

datatype content = NotJson string | FlowsDoc "flow list" | JsonDoc json_other | Partial

definition JSON_parse :: "content \<Rightarrow> js_error + flows_value" where
  "JSON_parse d =
     (case d of
        NotJson s \<Rightarrow> Inl SyntaxError
      | Partial \<Rightarrow> Inl SyntaxError
      | FlowsDoc fl \<Rightarrow> Inr (FlowArray fl)
      | JsonDoc v \<Rightarrow> Inr (NotArray v))"

datatype node = Dir | File content

datatype config_file = Unreadable js_error | Holds config

text \<open>What reaches the console: \<open>console.log(s)\<close>, \<open>console.error(s)\<close> and
  \<open>console.error(s, error.message)\<close>.\<close>

datatype console_line = Log string | Err string | ErrMsg string js_error

text \<open>
  The state the program acts on: the working directory of the process, the settings file
  beside the script, the file tree, the paths on which the operating system refuses a
  change, the paths on which a write breaks off after the file has been opened (no space
  left, an I/O error), the console, and the command lines given to \<open>child_process\<close>
  together with the directory they were started in (those of the update check apart,
  see below).
\<close>

record world =
  cwd :: filepath
  configFile :: config_file
  configWritable :: bool
  files :: "filepath \<Rightarrow> node option"
  locked :: "filepath set"
  failing :: "filepath set"
  console :: "console_line list"
  spawned :: "(filepath \<times> string) list"

text \<open>How an \<open>async\<close> function ends: its promise resolves or rejects.\<close>

datatype completion = Returned | Threw js_error

definition say :: "console_line \<Rightarrow> world \<Rightarrow> world" where
  "say l w = w\<lparr>console := console w @ [l]\<rparr>"

section \<open>Script generation (the \<open>switch\<close> of \<open>createFlow\<close>)\<close>

definition nl :: string where
  "nl = [CHR 0x0A]"

text \<open>\<open>s.replaceAll(',', sep)\<close>.\<close>

definition replaceAll_comma :: "string \<Rightarrow> string \<Rightarrow> string" where
  "replaceAll_comma sep s = concat (map (\<lambda>c. if c = CHR '','' then sep else [c]) s)"

definition generate :: "string \<Rightarrow> string \<Rightarrow> (string \<times> string) option" where
  "generate profile commands =
     (if profile = ''bash'' then
        Some (''#!/bin/bash'' @ nl @ nl @ replaceAll_comma (nl @ nl) commands, ''.sh'')
      else if profile = ''zsh'' then
        Some (''#!/bin/zsh'' @ nl @ nl @ replaceAll_comma (nl @ nl) commands, ''.sh'')
      else if profile = ''powershell'' then
        Some (''# PowerShell script content here'' @ nl @ nl @ replaceAll_comma nl commands,
              ''.ps1'')
      else if profile = ''cmd'' then
        Some (''@echo off'' @ nl @ nl @ replaceAll_comma nl commands, ''.bat'')
      else None)"

section \<open>The runtime: file system, working directory, child processes\<close>

text \<open>The root directory always exists.\<close>

definition node_at :: "world \<Rightarrow> filepath \<Rightarrow> node option" where
  "node_at w p = (if p = [] then Some Dir else files w p)"

text \<open>\<open>fs.access(p)\<close> succeeds when \<open>p\<close> exists.\<close>

definition fs_access :: "filepath \<Rightarrow> world \<Rightarrow> bool" where
  "fs_access p w = (node_at w p \<noteq> None)"

definition fs_readFile :: "filepath \<Rightarrow> world \<Rightarrow> js_error + content" where
  "fs_readFile p w =
     (case node_at w p of
        None \<Rightarrow> Inl ENOENT
      | Some Dir \<Rightarrow> Inl EISDIR
      | Some (File c) \<Rightarrow> Inr c)"

text \<open>
  \<open>fs.writeFile(p, data)\<close> opens \<open>p\<close> for writing, which creates the file or empties
  it, and then writes the data. Opening fails, and leaves the tree as it was, when \<open>p\<close>
  is a directory, when the directory that should hold \<open>p\<close> is missing or is a file, and
  when the system refuses the access. Writing fails when it breaks off: the file is
  then there, empty or with a beginning of the data.
\<close>

definition fs_writeFile :: "filepath \<Rightarrow> content \<Rightarrow> world \<Rightarrow> js_error option \<times> world" where
  "fs_writeFile p c w =
     (if node_at w p = Some Dir then (Some EISDIR, w)
      else if node_at w (butlast p) = None then (Some ENOENT, w)
      else if node_at w (butlast p) \<noteq> Some Dir then (Some ENOTDIR, w)
      else if p \<in> locked w then (Some EACCES, w)
      else if p \<in> failing w then (Some ENOSPC, w\<lparr>files := (files w)(p \<mapsto> File Partial)\<rparr>)
      else (None, w\<lparr>files := (files w)(p \<mapsto> File c)\<rparr>))"

text \<open>
  \<open>fs.mkdir(p, {recursive: true})\<close> walks from the root to \<open>p\<close> and creates every
  directory that is missing; directories created before a failure stay.
\<close>

fun mkdirs :: "filepath list \<Rightarrow> world \<Rightarrow> js_error option \<times> world" where
  "mkdirs [] w = (None, w)"
| "mkdirs (q # qs) w =
     (case node_at w q of
        Some Dir \<Rightarrow> mkdirs qs w
      | Some (File c) \<Rightarrow> (Some (if qs = [] then EEXIST else ENOTDIR), w)
      | None \<Rightarrow>
          if q \<in> locked w then (Some EACCES, w)
          else mkdirs qs (w\<lparr>files := (files w)(q \<mapsto> Dir)\<rparr>))"

definition fs_mkdir_recursive :: "filepath \<Rightarrow> world \<Rightarrow> js_error option \<times> world" where
  "fs_mkdir_recursive p w = mkdirs (prefixes p) w"

text \<open>
  \<open>fs.rm(p, {recursive: true})\<close> (without \<open>force\<close>) removes \<open>p\<close> and, when \<open>p\<close> is a
  directory, everything below it; it fails when \<open>p\<close> does not exist or the system
  refuses the removal.
\<close>

definition fs_rm_recursive :: "filepath \<Rightarrow> world \<Rightarrow> js_error + world" where
  "fs_rm_recursive p w =
     (if p = [] then Inl EACCES
      else if files w p = None then Inl ENOENT
      else if p \<in> locked w then Inl EACCES
      else Inr (w\<lparr>files := (\<lambda>q. if prefix p q then None else files w q)\<rparr>))"

text \<open>\<open>process.cwd()\<close> throws when the working directory no longer exists;
  \<open>process.chdir(d)\<close> throws when \<open>d\<close> is not an existing directory.\<close>

definition process_cwd :: "world \<Rightarrow> js_error + filepath" where
  "process_cwd w = (if node_at w (cwd w) = Some Dir then Inr (cwd w) else Inl ENOENT)"

definition process_chdir :: "filepath \<Rightarrow> world \<Rightarrow> js_error + world" where
  "process_chdir d w =
     (case node_at w d of
        None \<Rightarrow> Inl ENOENT
      | Some (File c) \<Rightarrow> Inl ENOTDIR
      | Some Dir \<Rightarrow> Inr (w\<lparr>cwd := d\<rparr>))"

text \<open>
  \<open>executeCommand\<close> is the promisified \<open>child_process.exec\<close>: the promise resolves with
  the captured standard output and standard error when the child exits with status 0,
  and rejects when the child cannot be started or exits with another status. What the
  child does is not part of the program, so the child is a parameter: for a command line
  and the file tree it finds, it gives its outcome and the file tree it leaves, which is
  the tree the program goes on with. (The settings file is kept apart from the tree; no
  command reads it after a child has run.)
\<close>

datatype exec_result = Exited string string | Failed string

type_synonym child =
  "string \<Rightarrow> (filepath \<Rightarrow> node option) \<Rightarrow> exec_result \<times> (filepath \<Rightarrow> node option)"

definition spawn :: "string \<Rightarrow> world \<Rightarrow> world" where
  "spawn cmd w = w\<lparr>spawned := spawned w @ [(cwd w, cmd)]\<rparr>"

definition executeCommand :: "child \<Rightarrow> string \<Rightarrow> world \<Rightarrow> exec_result \<times> world" where
  "executeCommand ch cmd w =
     (fst (ch cmd (files w)), (spawn cmd w)\<lparr>files := snd (ch cmd (files w))\<rparr>)"

text \<open>
  \<open>reinitialize\<close> hands whole file trees to shell commands. The shell is a parameter: for
  a command line and a file tree it gives the error message of a failed command, if
  any, and the file tree the command leaves. \<open>execSync\<close> throws on failure; the
  \<open>exec\<close> of the delete branch is neither awaited nor given a callback, so its failure
  is dropped (its effect is taken to be in place when \<open>exec\<close> returns).
\<close>

type_synonym shell = "string \<Rightarrow> (filepath \<Rightarrow> node option) \<Rightarrow> string option \<times> (filepath \<Rightarrow> node option)"

definition execSync :: "shell \<Rightarrow> string \<Rightarrow> world \<Rightarrow> js_error option \<times> world" where
  "execSync sh cmd w =
     (case sh cmd (files w) of
        (None, fs) \<Rightarrow> (None, (spawn cmd w)\<lparr>files := fs\<rparr>)
      | (Some m, fs) \<Rightarrow> (Some (ChildFailed m), (spawn cmd w)\<lparr>files := fs\<rparr>))"

definition exec_detached :: "shell \<Rightarrow> string \<Rightarrow> world \<Rightarrow> world" where
  "exec_detached sh cmd w = (spawn cmd w)\<lparr>files := snd (sh cmd (files w))\<rparr>"

section \<open>Settings and registry\<close>

definition loadConfig :: "world \<Rightarrow> js_error + config" where
  "loadConfig w =
     (case configFile w of
        Unreadable e \<Rightarrow> Inl (LoadConfigFailed e)
      | Holds c \<Rightarrow> Inr c)"

definition saveConfig :: "config \<Rightarrow> world \<Rightarrow> js_error + world" where
  "saveConfig c w =
     (if configWritable w then Inr (w\<lparr>configFile := Holds c\<rparr>)
      else Inl (SaveConfigFailed EACCES))"

text \<open>\<open>loadFlows\<close> returns what \<open>JSON.parse\<close> yields, whatever its shape; the \<open>catch\<close>
  answers every exception with the empty array.\<close>

definition loadFlows :: "world \<Rightarrow> flows_value \<times> world" where
  "loadFlows w =
     (case loadConfig w of
        Inl e \<Rightarrow> (FlowArray [], say (ErrMsg ''Error loading flows:'' e) w)
      | Inr c \<Rightarrow>
          if \<not> fs_access (path_join (flowDir c) ''flows.json'') w then (FlowArray [], w)
          else
            (case fs_readFile (path_join (flowDir c) ''flows.json'') w of
               Inl e \<Rightarrow> (FlowArray [], say (ErrMsg ''Error loading flows:'' e) w)
             | Inr d \<Rightarrow>
                 (case JSON_parse d of
                    Inl e \<Rightarrow> (FlowArray [], say (ErrMsg ''Error loading flows:'' e) w)
                  | Inr v \<Rightarrow> (v, w))))"

definition saveFlows :: "flow list \<Rightarrow> world \<Rightarrow> completion \<times> world" where
  "saveFlows flows w =
     (case loadConfig w of
        Inl e \<Rightarrow> (Threw e, w)
      | Inr c \<Rightarrow>
          (case fs_writeFile (path_join (flowDir c) ''flows.json'') (FlowsDoc flows) w of
             (Some e, w') \<Rightarrow> (Returned, say (ErrMsg ''Error saving flows:'' e) w')
           | (None, w') \<Rightarrow> (Returned, w')))"

section \<open>The commands\<close>

text \<open>
  Each command is the handler of one verb. The update check that opens every handler
  lies outside the specified core and is left out: a handler is modelled from the point
  where that check has returned. The answers of the interactive prompts are arguments.
\<close>

definition NOT_INITIALIZED :: console_line where
  "NOT_INITIALIZED =
     Log ''Flow manager is not initialized. Please run \"flow init\" to initialize it.''"

record init_answers =
  terminalProfileAnswer :: string
  flowLocationAnswer :: filepath

definition initialize :: "init_answers \<Rightarrow> world \<Rightarrow> completion \<times> world" where
  "initialize a w =
     (case loadConfig w of
        Inl e \<Rightarrow> (Threw e, w)
      | Inr c \<Rightarrow>
          if initialized c then
            (Returned, say (Log ''Flow manager is already initialized.'') w)
          else
            (case saveConfig
                    (c\<lparr>terminalProfile := terminalProfileAnswer a,
                       flowDir := flowLocationAnswer a,
                       flowCommandDir := path_join (flowLocationAnswer a) ''commands'',
                       initialized := True\<rparr>) w of
               Inl e \<Rightarrow> (Threw e, w)
             | Inr w' \<Rightarrow>
                 (Returned, say (Log ''Flow manager initialized successfully!'') w')))"

subsection \<open>\<open>createFlow\<close>\<close>

text \<open>The test \<open>/^[a-zA-Z0-9-_]+$/.test(value)\<close>.\<close>

definition name_char :: "char \<Rightarrow> bool" where
  "name_char c =
     ((97 \<le> (of_char c :: nat) \<and> (of_char c :: nat) \<le> 122)
      \<or> (65 \<le> (of_char c :: nat) \<and> (of_char c :: nat) \<le> 90)
      \<or> (48 \<le> (of_char c :: nat) \<and> (of_char c :: nat) \<le> 57)
      \<or> c = CHR ''-'' \<or> c = CHR ''_'')"

definition name_pattern :: "string \<Rightarrow> bool" where
  "name_pattern s = (s \<noteq> [] \<and> list_all name_char s)"

text \<open>
  A value the code holds is either the value itself or a promise of it that has not
  been awaited. Only an array has the methods \<open>find\<close>, \<open>findIndex\<close>, \<open>push\<close> and
  \<open>forEach\<close>: on a promise and on a value that is not an array the call throws a
  \<open>TypeError\<close>. Reading \<open>length\<close> throws on \<open>null\<close> only.
\<close>

datatype 'a js_value = Plain 'a | Promise 'a

definition js_array :: "flows_value js_value \<Rightarrow> js_error + flow list" where
  "js_array v =
     (case v of
        Plain (FlowArray xs) \<Rightarrow> Inr xs
      | Plain (NotArray x) \<Rightarrow> Inl TypeError
      | Promise x \<Rightarrow> Inl TypeError)"

definition js_find :: "(flow \<Rightarrow> bool) \<Rightarrow> flows_value js_value \<Rightarrow> js_error + flow option" where
  "js_find P v =
     (case js_array v of
        Inl e \<Rightarrow> Inl e
      | Inr xs \<Rightarrow> Inr (find P xs))"

text \<open>\<open>flows.length === 0\<close> and \<open>flows.length > 0\<close> for an awaited value.\<close>

definition js_length_is_0 :: "flows_value \<Rightarrow> js_error + bool" where
  "js_length_is_0 v =
     (case v of
        FlowArray xs \<Rightarrow> Inr (length xs = 0)
      | NotArray JNull \<Rightarrow> Inl TypeError
      | NotArray (JValue z p) \<Rightarrow> Inr z)"

definition js_length_gt_0 :: "flows_value \<Rightarrow> js_error + bool" where
  "js_length_gt_0 v =
     (case v of
        FlowArray xs \<Rightarrow> Inr (length xs > 0)
      | NotArray JNull \<Rightarrow> Inl TypeError
      | NotArray (JValue z p) \<Rightarrow> Inr p)"

text \<open>
  The \<open>validate\<close> callback of the flow-name question. It calls the \<open>async\<close> function
  \<open>loadFlows\<close> without \<open>await\<close>, so \<open>flows\<close> is a promise; every exception is caught
  and answered with the invalid-name message.
\<close>

datatype validation = Accepted | Rejected string

definition validate_flowName :: "string \<Rightarrow> world \<Rightarrow> validation" where
  "validate_flowName v w =
     (if \<not> name_pattern v then Rejected ''Please enter a valid flow name''
      else
        (case js_find (\<lambda>f. name f = v) (Promise (fst (loadFlows w))) of
           Inl e \<Rightarrow> Rejected ''Please enter a valid flow name''
         | Inr (Some f) \<Rightarrow> Rejected ''Flow name already exists''
         | Inr None \<Rightarrow> Accepted))"

text \<open>
  The answers that \<open>inquirer.prompt(questions)\<close> resolves to. (The answer of the
  separate first prompt is bound to a block-scoped constant and never read.)
\<close>

record create_answers =
  flowName :: string
  flowPath :: filepath
  commands :: string

definition createFlow :: "create_answers \<Rightarrow> world \<Rightarrow> completion \<times> world" where
  "createFlow a w =
     (case loadConfig w of
        Inl e \<Rightarrow> (Threw e, w)
      | Inr c \<Rightarrow>
          if \<not> initialized c then (Returned, say NOT_INITIALIZED w)
          else
            (case process_cwd w of
               Inl e \<Rightarrow> (Threw e, w)
             | Inr d \<Rightarrow>
                 (case generate (terminalProfile c) (commands a) of
                    None \<Rightarrow> (Returned, say (Log ''Invalid terminal profile selected.'') w)
                  | Some (scriptContent, scriptFileExtension) \<Rightarrow>
                      (case fs_mkdir_recursive (path_join (flowCommandDir c) (flowName a)) w of
                         (Some e, w1) \<Rightarrow> (Returned, say (ErrMsg ''Error creating flow:'' e) w1)
                       | (None, w1) \<Rightarrow>
                           (case fs_writeFile
                                   (path_join (path_join (flowCommandDir c) (flowName a))
                                      (''script'' @ scriptFileExtension))
                                   (NotJson scriptContent) w1 of
                              (Some e, w2) \<Rightarrow>
                                (Returned, say (ErrMsg ''Error creating flow:'' e) w2)
                            | (None, w2) \<Rightarrow>
                                (case loadFlows w2 of
                                   (flows, w3) \<Rightarrow>
                                     (case js_array (Plain flows) of
                                        Inl e \<Rightarrow>
                                          (Returned, say (ErrMsg ''Error creating flow:'' e) w3)
                                      | Inr xs \<Rightarrow>
                                     (case saveFlows
                                             (xs @
                                              [\<lparr>name = flowName a, path = flowPath a,
                                                script =
                                                  path_join
                                                    (path_join (flowCommandDir c) (flowName a))
                                                    (''script'' @ scriptFileExtension)\<rparr>]) w3 of
                                        (Threw e, w4) \<Rightarrow>
                                          (Returned, say (ErrMsg ''Error creating flow:'' e) w4)
                                      | (Returned, w4) \<Rightarrow>
                                          (Returned,
                                           say (Log (''Flow created successfully! File location: ''
                                                     @ render
                                                         (path_join
                                                            (path_join (flowCommandDir c)
                                                               (flowName a))
                                                            (''script'' @ scriptFileExtension))))
                                             w4)))))))))"

subsection \<open>\<open>listFlows\<close>\<close>

definition listFlows :: "world \<Rightarrow> completion \<times> world" where
  "listFlows w =
     (case loadConfig w of
        Inl e \<Rightarrow> (Threw e, w)
      | Inr c \<Rightarrow>
          if \<not> initialized c then (Returned, say NOT_INITIALIZED w)
          else
            (case loadFlows w of
               (flows, w1) \<Rightarrow>
                 (case js_length_is_0 flows of
                    Inl e \<Rightarrow> (Threw e, w1)
                  | Inr True \<Rightarrow> (Returned, say (Log ''No flows found.'') w1)
                  | Inr False \<Rightarrow>
                      (case js_array (Plain flows) of
                         Inl e \<Rightarrow> (Threw e, say (Log ''List of flows:'') w1)
                       | Inr xs \<Rightarrow>
                           (Returned,
                            fold (\<lambda>f. say (Log (name f))) xs
                              (say (Log ''List of flows:'') w1))))))"

subsection \<open>\<open>runFlow\<close> and \<open>openFlowForEditing\<close>\<close>

text \<open>The \<open>try\<close> and \<open>catch\<close> blocks around the child process.\<close>

definition report :: "string \<Rightarrow> exec_result \<Rightarrow> world \<Rightarrow> world" where
  "report msg r w =
     (case r of
        Exited out err \<Rightarrow>
          if err \<noteq> [] then say (Err err) (say (Log out) w) else say (Log out) w
      | Failed m \<Rightarrow> say (ErrMsg msg (ChildFailed m)) w)"

definition runFlow :: "string \<Rightarrow> child \<Rightarrow> world \<Rightarrow> completion \<times> world" where
  "runFlow n ch w =
     (case loadConfig w of
        Inl e \<Rightarrow> (Threw e, w)
      | Inr c \<Rightarrow>
          if \<not> initialized c then (Returned, say NOT_INITIALIZED w)
          else
            (case loadFlows w of
               (flows, w1) \<Rightarrow>
                 (case js_find (\<lambda>f. name f = n) (Plain flows) of
                    Inl e \<Rightarrow> (Threw e, w1)
                  | Inr None \<Rightarrow> (Returned, say (Log ''Flow not found'') w1)
                  | Inr (Some f) \<Rightarrow>
                      (case process_cwd w1 of
                         Inl e \<Rightarrow> (Threw e, w1)
                       | Inr currentDir \<Rightarrow>
                           (case process_chdir (path f) w1 of
                              Inl e \<Rightarrow> (Threw e, w1)
                            | Inr w2 \<Rightarrow>
                                (case executeCommand ch (''sh '' @ render (script f))
                                        (say (Log (''Running flow: '' @ name f)) w2) of
                                   (r, w3) \<Rightarrow>
                                     (case process_chdir currentDir
                                             (report ''Error running flow:'' r w3) of
                                        Inl e \<Rightarrow>
                                          (Threw e, report ''Error running flow:'' r w3)
                                      | Inr w4 \<Rightarrow>
                                          (Returned, say (Log ''Finished.'') w4))))))))"

definition openFlowForEditing :: "string \<Rightarrow> child \<Rightarrow> world \<Rightarrow> completion \<times> world" where
  "openFlowForEditing n ch w =
     (case loadConfig w of
        Inl e \<Rightarrow> (Threw e, w)
      | Inr c \<Rightarrow>
          if \<not> initialized c then (Returned, say NOT_INITIALIZED w)
          else
            (case loadFlows w of
               (flows, w1) \<Rightarrow>
                 (case js_find (\<lambda>f. name f = n) (Plain flows) of
                    Inl e \<Rightarrow> (Threw e, w1)
                  | Inr None \<Rightarrow> (Returned, say (Log ''Flow not found'') w1)
                  | Inr (Some f) \<Rightarrow>
                      (case process_cwd w1 of
                         Inl e \<Rightarrow> (Threw e, w1)
                       | Inr currentDir \<Rightarrow>
                           (case process_chdir (path f) w1 of
                              Inl e \<Rightarrow> (Threw e, w1)
                            | Inr w2 \<Rightarrow>
                                (case executeCommand ch (''code '' @ render (script f))
                                        (say (Log (''Opening flow for editing: '' @ name f)) w2) of
                                   (r, w3) \<Rightarrow>
                                     (case process_chdir currentDir
                                             (report ''Error opening flow for editing:'' r w3) of
                                        Inl e \<Rightarrow>
                                          (Threw e,
                                           report ''Error opening flow for editing:'' r w3)
                                      | Inr w4 \<Rightarrow>
                                          (Returned, say (Log ''Finished.'') w4))))))))"

subsection \<open>\<open>deleteFlow\<close>\<close>

text \<open>\<open>flows.findIndex(...)\<close>, with \<open>None\<close> for \<open>-1\<close>, and \<open>flows.splice(i, 1)\<close>;
  \<open>findIndex\<close> is the first use of \<open>flows\<close> and throws when it is not an array.\<close>

fun findIndex :: "('a \<Rightarrow> bool) \<Rightarrow> 'a list \<Rightarrow> nat option" where
  "findIndex P [] = None"
| "findIndex P (x # xs) = (if P x then Some 0 else map_option Suc (findIndex P xs))"

definition splice1 :: "nat \<Rightarrow> 'a list \<Rightarrow> 'a list" where
  "splice1 i xs = take i xs @ drop (Suc i) xs"

definition deleteFlow :: "string \<Rightarrow> world \<Rightarrow> completion \<times> world" where
  "deleteFlow n w =
     (case loadConfig w of
        Inl e \<Rightarrow> (Threw e, w)
      | Inr c \<Rightarrow>
          if \<not> initialized c then (Returned, say NOT_INITIALIZED w)
          else
            (case loadFlows w of
               (flows, w1) \<Rightarrow>
                 (case js_array (Plain flows) of
                    Inl e \<Rightarrow> (Threw e, w1)
                  | Inr xs \<Rightarrow>
                 (case findIndex (\<lambda>f. name f = n) xs of
                    None \<Rightarrow> (Returned, say (Log ''Flow not found'') w1)
                  | Some flowIndex \<Rightarrow>
                      (case fs_rm_recursive (script (xs ! flowIndex)) w1 of
                         Inl e \<Rightarrow> (Returned, say (ErrMsg ''Error deleting flow:'' e) w1)
                       | Inr w2 \<Rightarrow>
                           (case saveFlows (splice1 flowIndex xs) w2 of
                              (Threw e, w3) \<Rightarrow>
                                (Returned, say (ErrMsg ''Error deleting flow:'' e) w3)
                            | (Returned, w3) \<Rightarrow>
                                (Returned, say (Log ''Flow deleted successfully!'') w3)))))))"

subsection \<open>\<open>reinitialize\<close>\<close>

datatype verification = MoveToNewLocation | DeleteExistingFlows | Cancel

record reinit_answers =
  verificationAnswer :: verification
  newFlowLocationAnswer :: filepath
  initAnswers :: init_answers

definition COMPLETED_MOVE :: string where
  "COMPLETED_MOVE = ''Flows moved successfully!'' @ nl @ nl @ ''New location:''"

text \<open>The command line of the move branch, by terminal profile (\<open>None\<close>: the
  \<open>default\<close> case of the \<open>switch\<close>).\<close>

definition move_command :: "config \<Rightarrow> filepath \<Rightarrow> string option" where
  "move_command c newLoc =
     (if terminalProfile c = ''bash'' \<or> terminalProfile c = ''zsh'' then
        Some (''mv '' @ render (flowDir c) @ '' '' @ render newLoc
              @ ''; echo '' @ COMPLETED_MOVE @ render newLoc)
      else if terminalProfile c = ''powershell'' then
        Some (''Move-Item -Path '' @ render (flowDir c) @ '' -Destination '' @ render newLoc
              @ ''; echo '' @ COMPLETED_MOVE @ render newLoc)
      else if terminalProfile c = ''cmd'' then
        Some (''move '' @ render (flowDir c) @ '' '' @ render newLoc
              @ ''; echo '' @ COMPLETED_MOVE @ render newLoc)
      else None)"

definition delete_command :: "config \<Rightarrow> string option" where
  "delete_command c =
     (if terminalProfile c = ''bash'' \<or> terminalProfile c = ''zsh'' then
        Some (''rm -rf '' @ render (flowDir c))
      else if terminalProfile c = ''powershell'' then
        Some (''Remove-Item -Recurse -Force '' @ render (flowDir c))
      else if terminalProfile c = ''cmd'' then
        Some (''rmdir /s /q '' @ render (flowDir c))
      else None)"

definition reinitialize :: "reinit_answers \<Rightarrow> shell \<Rightarrow> world \<Rightarrow> completion \<times> world" where
  "reinitialize a sh w =
     (case loadConfig w of
        Inl e \<Rightarrow> (Threw e, w)
      | Inr c \<Rightarrow>
          (case loadFlows w of
             (flows, w1) \<Rightarrow>
               (case js_length_gt_0 flows of
                  Inl e \<Rightarrow> (Threw e, w1)
                | Inr False \<Rightarrow> (Returned, w1)
                | Inr True \<Rightarrow>
                 (case verificationAnswer a of
                    MoveToNewLocation \<Rightarrow>
                      (case (case move_command c (newFlowLocationAnswer a) of
                               Some cmd \<Rightarrow> execSync sh cmd w1
                             | None \<Rightarrow>
                                 (None, say (Log ''Invalid terminal profile selected.'') w1)) of
                         (Some e, w2) \<Rightarrow> (Threw e, w2)
                       | (None, w2) \<Rightarrow>
                           (case saveConfig
                                   (c\<lparr>flowDir := newFlowLocationAnswer a,
                                      flowCommandDir :=
                                        path_join (newFlowLocationAnswer a) ''commands'',
                                      initialized := True\<rparr>) w2 of
                              Inl e \<Rightarrow> (Threw e, w2)
                            | Inr w3 \<Rightarrow> (Returned, w3)))
                  | DeleteExistingFlows \<Rightarrow>
                      (case delete_command c of
                         None \<Rightarrow> (Returned, say (Log ''Invalid terminal profile selected.'') w1)
                       | Some cmd \<Rightarrow>
                           (case saveConfig (c\<lparr>initialized := False\<rparr>)
                                   (exec_detached sh cmd w1) of
                              Inl e \<Rightarrow> (Threw e, exec_detached sh cmd w1)
                            | Inr w3 \<Rightarrow> initialize (initAnswers a) w3))
                  | Cancel \<Rightarrow> (Returned, w1)))))"

subsection \<open>\<open>resetConfig\<close>\<close>

definition resetConfig :: "filepath \<Rightarrow> world \<Rightarrow> completion \<times> world" where
  "resetConfig homedir w =
     (case loadConfig w of
        Inl e \<Rightarrow> (Threw e, w)
      | Inr c \<Rightarrow>
          (case saveConfig
                  (c\<lparr>flowDir := path_join homedir ''.flow'',
                     flowCommandDir := path_join (path_join homedir ''.flow'') ''commands'',
                     terminalProfile := ''bash'',
                     defaultFlowPath := ''.'',
                     initialized := False\<rparr>) w of
             Inl e \<Rightarrow> (Threw e, w)
           | Inr w' \<Rightarrow> (Returned, w')))"

section \<open>Sample states\<close>

text \<open>
  A user whose settings point at \<open>/home/u/.flow\<close>, working in \<open>/work\<close>, with a project
  directory \<open>/proj\<close>; no flow has been created yet.
\<close>

definition root0 :: filepath where
  "root0 = [''home'', ''u'', ''.flow'']"

definition config0 :: config where
  "config0 = \<lparr>flowDir = root0, flowCommandDir = path_join root0 ''commands'',
              terminalProfile = ''bash'', defaultFlowPath = ''.'', initialized = True\<rparr>"

definition files0 :: "filepath \<Rightarrow> node option" where
  "files0 = [[''home''] \<mapsto> Dir, [''home'', ''u''] \<mapsto> Dir, [''work''] \<mapsto> Dir,
             [''proj''] \<mapsto> Dir]"

definition world0 :: world where
  "world0 = \<lparr>cwd = [''work''], configFile = Holds config0, configWritable = True,
             files = files0, locked = {}, failing = {}, console = [], spawned = []\<rparr>"

text \<open>The flow \<open>deploy\<close> as \<open>createFlow\<close> records it, and its answers.\<close>

definition deploy_answers :: create_answers where
  "deploy_answers = \<lparr>flowName = ''deploy'', flowPath = [''proj''], commands = ''echo a,echo b''\<rparr>"

definition deploy_dir :: filepath where
  "deploy_dir = path_join (path_join root0 ''commands'') ''deploy''"

definition deploy :: flow where
  "deploy = \<lparr>name = ''deploy'', path = [''proj''], script = path_join deploy_dir ''script.sh''\<rparr>"

text \<open>The state with \<open>deploy\<close> in place: its directory, its script and the registry.\<close>

definition files1 :: "filepath \<Rightarrow> node option" where
  "files1 = files0(root0 \<mapsto> Dir, path_join root0 ''commands'' \<mapsto> Dir, deploy_dir \<mapsto> Dir,
              path_join deploy_dir ''script.sh''
                \<mapsto> File (NotJson (''#!/bin/bash'' @ nl @ nl @ ''echo a'' @ nl @ nl @ ''echo b'')),
              path_join root0 ''flows.json'' \<mapsto> File (FlowsDoc [deploy]))"

definition world1 :: world where
  "world1 = world0\<lparr>files := files1\<rparr>"

text \<open>The same state with the settings marked as not initialized.\<close>

definition world1_uninit :: world where
  "world1_uninit = world1\<lparr>configFile := Holds (config0\<lparr>initialized := False\<rparr>)\<rparr>"

text \<open>A registry file whose content is not JSON, one that holds \<open>{}\<close>, one that the
  system refuses to open for writing (a read-only file), and one on which a write breaks
  off.\<close>

definition world_malformed :: world where
  "world_malformed =
     world0\<lparr>files := files0(root0 \<mapsto> Dir,
                path_join root0 ''flows.json'' \<mapsto> File (NotJson ''{oops''))\<rparr>"

definition world_object :: world where
  "world_object =
     world0\<lparr>files := files0(root0 \<mapsto> Dir,
                path_join root0 ''flows.json'' \<mapsto> File (JsonDoc (JValue False False)))\<rparr>"

definition world1_locked :: world where
  "world1_locked = world1\<lparr>locked := {path_join root0 ''flows.json''}\<rparr>"

definition world1_failing :: world where
  "world1_failing = world1\<lparr>failing := {path_join root0 ''flows.json''}\<rparr>"

text \<open>A second flow, \<open>build\<close>.\<close>

definition build_answers :: create_answers where
  "build_answers = \<lparr>flowName = ''build'', flowPath = [''proj''], commands = ''make''\<rparr>"

text \<open>
  Children: one that prints nothing and leaves the tree alone, one that exits with a
  non-zero status, and one that removes the directory \<open>/work\<close> (a script that holds
  \<open>rm -rf /work\<close>).
\<close>

definition quiet_child :: child where
  "quiet_child cmd fs = (Exited [] [], fs)"



text \<open>
  Moving the storage root to \<open>/home/u/flows2\<close>. \<open>move_tree src dst\<close> is what a
  successful recursive move to a fresh destination does to the tree; \<open>sh_moves\<close> is a
  shell on which the command line of the move branch does that and succeeds, and
  \<open>sh_moves_then_fails\<close> one on which the tree is moved and the command line then ends
  with a non-zero status.
\<close>

definition new_root :: filepath where
  "new_root = [''home'', ''u'', ''flows2'']"

definition move_tree ::
  "filepath \<Rightarrow> filepath \<Rightarrow> (filepath \<Rightarrow> node option) \<Rightarrow> (filepath \<Rightarrow> node option)" where
  "move_tree src dst fs =
     (\<lambda>q. if prefix dst q then fs (src @ drop (length dst) q)
          else if prefix src q then None
          else fs q)"

definition sh_moves :: shell where
  "sh_moves cmd fs =
     (if cmd = ''mv /home/u/.flow /home/u/flows2; echo '' @ COMPLETED_MOVE @ ''/home/u/flows2''
      then (None, move_tree root0 new_root fs)
      else (Some ''command not found'', fs))"

definition sh_moves_then_fails :: shell where
  "sh_moves_then_fails cmd fs =
     (if cmd = ''mv /home/u/.flow /home/u/flows2; echo '' @ COMPLETED_MOVE @ ''/home/u/flows2''
      then (Some ''New: not found'', move_tree root0 new_root fs)
      else (Some ''command not found'', fs))"

text \<open>
  Deleting the flows instead: \<open>sh_removes\<close> is a shell on which the command line of
  the delete branch removes the storage root.
\<close>

definition sh_removes :: shell where
  "sh_removes cmd fs =
     (if cmd = ''rm -rf /home/u/.flow''
      then (None, (\<lambda>q. if prefix root0 q then None else fs q))
      else (Some ''command not found'', fs))"

definition delete_answers :: reinit_answers where
  "delete_answers =
     \<lparr>verificationAnswer = DeleteExistingFlows, newFlowLocationAnswer = new_root,
      initAnswers = \<lparr>terminalProfileAnswer = ''zsh'', flowLocationAnswer = new_root\<rparr>\<rparr>"

definition move_answers :: reinit_answers where
  "move_answers =
     \<lparr>verificationAnswer = MoveToNewLocation, newFlowLocationAnswer = new_root,
      initAnswers = \<lparr>terminalProfileAnswer = ''bash'', flowLocationAnswer = new_root\<rparr>\<rparr>"

section \<open>Frame and evaluation lemmas\<close>

lemmas sample_defs = world0_def world1_def config0_def files0_def files1_def root0_def
  deploy_def deploy_dir_def deploy_answers_def path_join_def world1_uninit_def
  world_malformed_def world_object_def world1_locked_def world1_failing_def new_root_def
  move_answers_def delete_answers_def build_answers_def

lemmas fs_defs = node_at_def fs_access_def fs_readFile_def fs_writeFile_def
  fs_mkdir_recursive_def fs_rm_recursive_def process_cwd_def process_chdir_def

lemmas js_defs = JSON_parse_def js_array_def js_find_def js_length_is_0_def js_length_gt_0_def

lemma loadFlows_world1: "loadFlows world1 = (FlowArray [deploy], world1)"
  by (simp add: loadFlows_def loadConfig_def sample_defs fs_defs js_defs)

text \<open>The state with \<open>deploy\<close> in place is the one that \<open>createFlow\<close> makes of the
  initial state.\<close>

lemma createFlow_world0:
  "createFlow deploy_answers world0 =
     (Returned,
      world1\<lparr>console :=
        [Log ''Flow created successfully! File location: /home/u/.flow/commands/deploy/script.sh'']\<rparr>)"
proof -
  have "files (snd (createFlow deploy_answers world0)) = files1"
    by (rule ext)
       (simp add: createFlow_def loadFlows_def saveFlows_def loadConfig_def say_def sample_defs
          fs_defs js_defs generate_def replaceAll_comma_def)
  then show ?thesis
    by (simp add: createFlow_def loadFlows_def saveFlows_def loadConfig_def say_def sample_defs
          fs_defs js_defs generate_def replaceAll_comma_def render_def)
qed

lemma say_frame [simp]:
  "cwd (say l w) = cwd w" "files (say l w) = files w" "configFile (say l w) = configFile w"
  "configWritable (say l w) = configWritable w" "locked (say l w) = locked w"
  "failing (say l w) = failing w"
  "spawned (say l w) = spawned w" "console (say l w) = console w @ [l]"
  by (simp_all add: say_def)

lemma spawn_frame [simp]:
  "cwd (spawn s w) = cwd w" "files (spawn s w) = files w" "configFile (spawn s w) = configFile w"
  "configWritable (spawn s w) = configWritable w" "locked (spawn s w) = locked w"
  "failing (spawn s w) = failing w"
  "spawned (spawn s w) = spawned w @ [(cwd w, s)]" "console (spawn s w) = console w"
  by (simp_all add: spawn_def)

lemma report_frame [simp]:
  "cwd (report m r w) = cwd w" "files (report m r w) = files w"
  "configFile (report m r w) = configFile w" "configWritable (report m r w) = configWritable w"
  "locked (report m r w) = locked w" "failing (report m r w) = failing w"
  "spawned (report m r w) = spawned w"
  by (simp_all add: report_def split: exec_result.splits)

lemma executeCommand_frame [simp]:
  "cwd (snd (executeCommand ch s w)) = cwd w"
  "files (snd (executeCommand ch s w)) = snd (ch s (files w))"
  "spawned (snd (executeCommand ch s w)) = spawned w @ [(cwd w, s)]"
  by (simp_all add: executeCommand_def)

lemma loadFlows_frame:
  assumes "loadFlows w = (fl, w1)"
  shows "cwd w1 = cwd w" "files w1 = files w" "configFile w1 = configFile w"
    "configWritable w1 = configWritable w" "locked w1 = locked w" "spawned w1 = spawned w"
  using assms
  by (auto simp: loadFlows_def split: sum.splits if_splits)

text \<open>Up to the child: the flow is found, both directories exist.\<close>

lemma runFlow_found:
  assumes "configFile w = Holds c" "initialized c" "loadFlows w = (flows, w1)"
    "js_find (\<lambda>f. name f = n) (Plain flows) = Inr (Some f)"
    "node_at w (cwd w) = Some Dir" "node_at w (path f) = Some Dir"
  shows "spawned (snd (runFlow n ch w)) = spawned w @ [(path f, ''sh '' @ render (script f))]"
proof -
  note fr = loadFlows_frame [OF assms(3)]
  have a: "node_at w1 (cwd w) = Some Dir" "node_at w1 (path f) = Some Dir"
    using assms(5,6) by (auto simp: node_at_def fr(2) split: if_splits)
  show ?thesis
    unfolding runFlow_def
    using assms(1,2,4) a
    by (simp add: loadConfig_def assms(3) process_cwd_def process_chdir_def fr
        split: prod.splits sum.splits option.splits node.splits)
       (auto simp: executeCommand_def fr)
qed

lemma openFlowForEditing_found:
  assumes "configFile w = Holds c" "initialized c" "loadFlows w = (flows, w1)"
    "js_find (\<lambda>f. name f = n) (Plain flows) = Inr (Some f)"
    "node_at w (cwd w) = Some Dir" "node_at w (path f) = Some Dir"
  shows "spawned (snd (openFlowForEditing n ch w))
           = spawned w @ [(path f, ''code '' @ render (script f))]"
proof -
  note fr = loadFlows_frame [OF assms(3)]
  have a: "node_at w1 (cwd w) = Some Dir" "node_at w1 (path f) = Some Dir"
    using assms(5,6) by (auto simp: node_at_def fr(2) split: if_splits)
  show ?thesis
    unfolding openFlowForEditing_def
    using assms(1,2,4) a
    by (simp add: loadConfig_def assms(3) process_cwd_def process_chdir_def fr
        split: prod.splits sum.splits option.splits node.splits)
       (auto simp: executeCommand_def fr)
qed



lemma loadFlows_profile:
  assumes "configFile w = Holds c"
  shows "fst (loadFlows (w\<lparr>configFile := Holds (c\<lparr>terminalProfile := p\<rparr>)\<rparr>)) = fst (loadFlows w)"
  using assms
  by (simp add: loadFlows_def loadConfig_def fs_access_def fs_readFile_def node_at_def
      split: option.splits node.splits sum.splits)

section \<open>Script generation: the policy table\<close>

text \<open>
  Claim C7. For each of the four dialects, the script generated from
  \<open>"echo a,echo b"\<close> is the dialect's header, a blank line, then \<open>echo a\<close> and
  \<open>echo b\<close> in this order, separated by a blank line for bash and zsh and by a single
  newline for powershell and cmd; the extensions are \<open>.sh\<close>, \<open>.sh\<close>, \<open>.ps1\<close> and
  \<open>.bat\<close>.
\<close>

theorem generate_policy_table:
  "generate ''bash'' ''echo a,echo b''
     = Some (''#!/bin/bash'' @ nl @ nl @ ''echo a'' @ nl @ nl @ ''echo b'', ''.sh'')
   \<and> generate ''zsh'' ''echo a,echo b''
     = Some (''#!/bin/zsh'' @ nl @ nl @ ''echo a'' @ nl @ nl @ ''echo b'', ''.sh'')
   \<and> generate ''powershell'' ''echo a,echo b''
     = Some (''# PowerShell script content here'' @ nl @ nl @ ''echo a'' @ nl @ ''echo b'',
             ''.ps1'')
   \<and> generate ''cmd'' ''echo a,echo b''
     = Some (''@echo off'' @ nl @ nl @ ''echo a'' @ nl @ ''echo b'', ''.bat'')"
  by (simp add: generate_def replaceAll_comma_def)

section \<open>Directory scoping of \<open>runFlow\<close> and \<open>openFlowForEditing\<close>\<close>




section \<open>The command lines of \<open>runFlow\<close> and \<open>openFlowForEditing\<close>\<close>

text \<open>
  Claim C10. For a flow that is found, the one command line that \<open>runFlow\<close> starts is
  \<open>sh <script>\<close> and the one that \<open>openFlowForEditing\<close> starts is \<open>code <script>\<close>,
  whatever terminal profile \<open>p\<close> the settings hold and whatever the child \<open>ch\<close> does: the
  profile plays no part in the choice of the interpreter or of the editor.
\<close>

theorem run_edit_fixed_command:
  assumes "configFile w = Holds c" "initialized c"
    "js_find (\<lambda>f. name f = n) (Plain (fst (loadFlows w))) = Inr (Some f)"
    "node_at w (cwd w) = Some Dir" "node_at w (path f) = Some Dir"
  shows "map snd (spawned (snd (runFlow n ch (w\<lparr>configFile := Holds (c\<lparr>terminalProfile := p\<rparr>)\<rparr>))))
           = map snd (spawned w) @ [''sh '' @ render (script f)]
       \<and> map snd (spawned (snd (openFlowForEditing n ch
                                   (w\<lparr>configFile := Holds (c\<lparr>terminalProfile := p\<rparr>)\<rparr>))))
           = map snd (spawned w) @ [''code '' @ render (script f)]"
proof -
  let ?w = "w\<lparr>configFile := Holds (c\<lparr>terminalProfile := p\<rparr>)\<rparr>"
  obtain flows w1 where lf: "loadFlows ?w = (flows, w1)"
    by (cases "loadFlows ?w")
  have "flows = fst (loadFlows w)"
    using loadFlows_profile [OF assms(1), of p] lf by simp
  with assms(3) have fnd: "js_find (\<lambda>f. name f = n) (Plain flows) = Inr (Some f)"
    by simp
  have c: "configFile ?w = Holds (c\<lparr>terminalProfile := p\<rparr>)" "initialized (c\<lparr>terminalProfile := p\<rparr>)"
    using assms(2) by simp_all
  have d: "node_at ?w (cwd ?w) = Some Dir" "node_at ?w (path f) = Some Dir"
    using assms(4,5) by (auto simp: node_at_def split: if_splits)
  show ?thesis
    by (simp add: runFlow_found [OF c lf fnd d] openFlowForEditing_found [OF c lf fnd d])
qed

theorem run_edit_fixed_command_witness:
  "configFile world1 = Holds config0 \<and> initialized config0
   \<and> js_find (\<lambda>f. name f = ''deploy'') (Plain (fst (loadFlows world1))) = Inr (Some deploy)
   \<and> node_at world1 (cwd world1) = Some Dir \<and> node_at world1 (path deploy) = Some Dir
   \<and> render (script deploy) = ''/home/u/.flow/commands/deploy/script.sh''
   \<and> map snd (spawned (snd (runFlow ''deploy'' quiet_child
                (world1\<lparr>configFile := Holds (config0\<lparr>terminalProfile := ''powershell''\<rparr>)\<rparr>))))
       = map snd (spawned world1) @ [''sh '' @ render (script deploy)]
   \<and> map snd (spawned (snd (openFlowForEditing ''deploy'' quiet_child
                (world1\<lparr>configFile := Holds (config0\<lparr>terminalProfile := ''powershell''\<rparr>)\<rparr>))))
       = map snd (spawned world1) @ [''code '' @ render (script deploy)]"
proof -
  have h: "js_find (\<lambda>f. name f = ''deploy'') (Plain (fst (loadFlows world1))) = Inr (Some deploy)"
    unfolding loadFlows_world1 by (simp add: js_defs deploy_def)
  have g: "configFile world1 = Holds config0" "initialized config0"
     "node_at world1 (cwd world1) = Some Dir" "node_at world1 (path deploy) = Some Dir"
    by (simp_all add: sample_defs fs_defs)
  have r: "render (script deploy) = ''/home/u/.flow/commands/deploy/script.sh''"
    by (simp add: render_def sample_defs)
  from run_edit_fixed_command [OF g(1) g(2) h g(3) g(4), of quiet_child "''powershell''"]
    h g r
  show ?thesis
    by blast
qed

section \<open>The initialization gate\<close>

lemma loadFlows_world1_uninit: "loadFlows world1_uninit = (FlowArray [deploy], world1_uninit)"
  by (simp add: loadFlows_def loadConfig_def sample_defs fs_defs js_defs)

text \<open>
  Claim C2, as the code has it. When the persisted settings have \<open>initialized\<close> false,
  each of \<open>createFlow\<close>, \<open>listFlows\<close>, \<open>runFlow\<close>, \<open>deleteFlow\<close> and
  \<open>openFlowForEditing\<close> returns after printing the not-initialized message, and the
  state differs from the one before only by that console line: settings, registry and
  files are untouched. \<open>reinitialize\<close> is not among them: it never reads the flag.
\<close>

theorem not_initialized_no_mutation:
  assumes "configFile w = Holds c" "\<not> initialized c"
  shows "createFlow a w = (Returned, w\<lparr>console := console w @ [NOT_INITIALIZED]\<rparr>)
       \<and> listFlows w = (Returned, w\<lparr>console := console w @ [NOT_INITIALIZED]\<rparr>)
       \<and> runFlow n ch w = (Returned, w\<lparr>console := console w @ [NOT_INITIALIZED]\<rparr>)
       \<and> deleteFlow n w = (Returned, w\<lparr>console := console w @ [NOT_INITIALIZED]\<rparr>)
       \<and> openFlowForEditing n ch w = (Returned, w\<lparr>console := console w @ [NOT_INITIALIZED]\<rparr>)"
  using assms
  by (simp add: createFlow_def listFlows_def runFlow_def deleteFlow_def openFlowForEditing_def
      loadConfig_def say_def)

theorem not_initialized_no_mutation_witness:
  "configFile world1_uninit = Holds (config0\<lparr>initialized := False\<rparr>)
   \<and> \<not> initialized (config0\<lparr>initialized := False\<rparr>)
   \<and> createFlow deploy_answers world1_uninit
       = (Returned, world1_uninit\<lparr>console := console world1_uninit @ [NOT_INITIALIZED]\<rparr>)
   \<and> listFlows world1_uninit
       = (Returned, world1_uninit\<lparr>console := console world1_uninit @ [NOT_INITIALIZED]\<rparr>)
   \<and> runFlow ''deploy'' quiet_child world1_uninit
       = (Returned, world1_uninit\<lparr>console := console world1_uninit @ [NOT_INITIALIZED]\<rparr>)
   \<and> deleteFlow ''deploy'' world1_uninit
       = (Returned, world1_uninit\<lparr>console := console world1_uninit @ [NOT_INITIALIZED]\<rparr>)
   \<and> openFlowForEditing ''deploy'' quiet_child world1_uninit
       = (Returned, world1_uninit\<lparr>console := console world1_uninit @ [NOT_INITIALIZED]\<rparr>)"
proof -
  have h: "configFile world1_uninit = Holds (config0\<lparr>initialized := False\<rparr>)"
    "\<not> initialized (config0\<lparr>initialized := False\<rparr>)"
    by (simp_all add: world1_uninit_def)
  from not_initialized_no_mutation [OF h, of deploy_answers "''deploy''" quiet_child] h
  show ?thesis
    by blast
qed

text \<open>
  \<open>reinitialize\<close> on settings that are not initialized, with one flow and the delete
  choice: the not-initialized message is not printed, the storage root is removed and
  the settings are rewritten with the answers of the initialization prompts.
\<close>

theorem reinitialize_not_gated_counterexample:
  "configFile world1_uninit = Holds (config0\<lparr>initialized := False\<rparr>)
   \<and> fst (reinitialize delete_answers sh_removes world1_uninit) = Returned
   \<and> console (snd (reinitialize delete_answers sh_removes world1_uninit))
       = [Log ''Flow manager initialized successfully!'']
   \<and> configFile (snd (reinitialize delete_answers sh_removes world1_uninit))
       = Holds \<lparr>flowDir = new_root, flowCommandDir = path_join new_root ''commands'',
                terminalProfile = ''zsh'', defaultFlowPath = ''.'', initialized = True\<rparr>
   \<and> files world1_uninit (path_join root0 ''flows.json'') = Some (File (FlowsDoc [deploy]))
   \<and> files (snd (reinitialize delete_answers sh_removes world1_uninit))
        (path_join root0 ''flows.json'') = None"
proof -
  have c: "configFile world1_uninit = Holds (config0\<lparr>initialized := False\<rparr>)"
    by (simp add: world1_uninit_def)
  have d: "delete_command (config0\<lparr>initialized := False\<rparr>) = Some ''rm -rf /home/u/.flow''"
    by (simp add: delete_command_def render_def sample_defs)
  have r: "reinitialize delete_answers sh_removes world1_uninit =
      (Returned,
       say (Log ''Flow manager initialized successfully!'')
         ((spawn ''rm -rf /home/u/.flow'' world1_uninit)
          \<lparr>files := (\<lambda>q. if prefix root0 q then None else files world1_uninit q),
           configFile := Holds (config0\<lparr>terminalProfile := ''zsh'', flowDir := new_root,
                                  flowCommandDir := path_join new_root ''commands'',
                                  initialized := True\<rparr>)\<rparr>))"
    unfolding reinitialize_def loadFlows_world1_uninit
    by (simp add: loadConfig_def c d exec_detached_def sh_removes_def saveConfig_def
        initialize_def delete_answers_def js_defs)
       (simp add: world1_uninit_def world1_def world0_def spawn_def say_def)
  show ?thesis
    unfolding r
    by (simp add: c) (simp add: sample_defs spawn_def)
qed

section \<open>Loading the registry\<close>

text \<open>
  Claim C5, as the code has it. With readable settings, \<open>loadFlows\<close> returns the empty
  array when the registry file does not exist. When \<open>JSON.parse\<close> throws on the content
  of the file, it logs \<open>Error loading flows:\<close> with the parser's error and returns the
  empty array as well: no error reaches the caller. Content that is JSON is returned as
  parsed and unchecked, also when the value is not an array.
\<close>

theorem loadFlows_missing_or_malformed:
  assumes "configFile w = Holds c"
  shows "(node_at w (path_join (flowDir c) ''flows.json'') = None
          \<longrightarrow> loadFlows w = (FlowArray [], w))
       \<and> (node_at w (path_join (flowDir c) ''flows.json'') = Some (File d)
            \<and> JSON_parse d = Inl e
          \<longrightarrow> loadFlows w = (FlowArray [], say (ErrMsg ''Error loading flows:'' e) w))
       \<and> (node_at w (path_join (flowDir c) ''flows.json'') = Some (File d)
            \<and> JSON_parse d = Inr v
          \<longrightarrow> loadFlows w = (v, w))"
  using assms
  by (simp add: loadFlows_def loadConfig_def fs_access_def fs_readFile_def)

theorem loadFlows_missing_or_malformed_witness:
  "configFile world0 = Holds config0
   \<and> node_at world0 (path_join (flowDir config0) ''flows.json'') = None
   \<and> loadFlows world0 = (FlowArray [], world0)
   \<and> configFile world_malformed = Holds config0
   \<and> node_at world_malformed (path_join (flowDir config0) ''flows.json'')
       = Some (File (NotJson ''{oops''))
   \<and> JSON_parse (NotJson ''{oops'') = Inl SyntaxError
   \<and> loadFlows world_malformed
       = (FlowArray [], say (ErrMsg ''Error loading flows:'' SyntaxError) world_malformed)
   \<and> configFile world_object = Holds config0
   \<and> node_at world_object (path_join (flowDir config0) ''flows.json'')
       = Some (File (JsonDoc (JValue False False)))
   \<and> JSON_parse (JsonDoc (JValue False False)) = Inr (NotArray (JValue False False))
   \<and> loadFlows world_object = (NotArray (JValue False False), world_object)"
proof -
  have c: "configFile world0 = Holds config0" "configFile world_malformed = Holds config0"
    "configFile world_object = Holds config0"
    by (simp_all add: sample_defs)
  have n: "node_at world0 (path_join (flowDir config0) ''flows.json'') = None"
    "node_at world_malformed (path_join (flowDir config0) ''flows.json'')
       = Some (File (NotJson ''{oops''))"
    "node_at world_object (path_join (flowDir config0) ''flows.json'')
       = Some (File (JsonDoc (JValue False False)))"
    by (simp_all add: sample_defs fs_defs)
  have p: "JSON_parse (NotJson ''{oops'') = Inl SyntaxError"
    "JSON_parse (JsonDoc (JValue False False)) = Inr (NotArray (JValue False False))"
    by (simp_all add: JSON_parse_def)
  from loadFlows_missing_or_malformed [OF c(1)]
    loadFlows_missing_or_malformed [OF c(2), of "NotJson ''{oops''" SyntaxError]
    loadFlows_missing_or_malformed [OF c(3), of "JsonDoc (JValue False False)" _
       "NotArray (JValue False False)"] c n p
  show ?thesis
    by simp
qed

text \<open>
  A registry file that holds \<open>{oops\<close>: the result is the empty array, returned normally,
  with one line on the console. A registry file that holds \<open>{}\<close>: the object is
  returned as it is and nothing is printed; \<open>listFlows\<close> then prints its heading and
  throws a \<open>TypeError\<close>.
\<close>

theorem loadFlows_malformed_counterexample:
  "files world_malformed (path_join root0 ''flows.json'') = Some (File (NotJson ''{oops''))
   \<and> loadFlows world_malformed
       = (FlowArray [], world_malformed\<lparr>console := [ErrMsg ''Error loading flows:'' SyntaxError]\<rparr>)
   \<and> files world_object (path_join root0 ''flows.json'')
       = Some (File (JsonDoc (JValue False False)))
   \<and> loadFlows world_object = (NotArray (JValue False False), world_object)
   \<and> listFlows world_object
       = (Threw TypeError, world_object\<lparr>console := [Log ''List of flows:'']\<rparr>)"
  by (simp add: listFlows_def loadFlows_def loadConfig_def say_def sample_defs fs_defs js_defs)

section \<open>Saving the registry\<close>

lemmas command_defs = createFlow_def listFlows_def runFlow_def deleteFlow_def
  openFlowForEditing_def loadFlows_def saveFlows_def loadConfig_def saveConfig_def say_def

text \<open>
  Claim C8, as the code has it. When writing the registry file fails with an error
  \<open>e\<close>, be it on opening the file or while the data is written, \<open>saveFlows\<close> logs
  \<open>Error saving flows:\<close> with \<open>e\<close> and returns normally: the error is not passed to the
  caller.
\<close>

theorem saveFlows_write_error_logged:
  assumes "configFile w = Holds c"
    and "fs_writeFile (path_join (flowDir c) ''flows.json'') (FlowsDoc fl) w = (Some e, w')"
  shows "saveFlows fl w = (Returned, say (ErrMsg ''Error saving flows:'' e) w')"
  using assms by (simp add: saveFlows_def loadConfig_def)

theorem saveFlows_write_error_logged_witness:
  "configFile world1_locked = Holds config0
   \<and> fs_writeFile (path_join (flowDir config0) ''flows.json'') (FlowsDoc []) world1_locked
       = (Some EACCES, world1_locked)
   \<and> saveFlows [] world1_locked
       = (Returned, say (ErrMsg ''Error saving flows:'' EACCES) world1_locked)
   \<and> configFile world1_failing = Holds config0
   \<and> fst (fs_writeFile (path_join (flowDir config0) ''flows.json'') (FlowsDoc []) world1_failing)
       = Some ENOSPC
   \<and> fst (saveFlows [] world1_failing) = Returned
   \<and> console (snd (saveFlows [] world1_failing)) = [ErrMsg ''Error saving flows:'' ENOSPC]"
proof -
  have c: "configFile world1_locked = Holds config0" "configFile world1_failing = Holds config0"
    by (simp_all add: sample_defs)
  have e: "fs_writeFile (path_join (flowDir config0) ''flows.json'') (FlowsDoc []) world1_locked
       = (Some EACCES, world1_locked)"
    by (simp add: sample_defs fs_defs)
  obtain w' where f:
    "fs_writeFile (path_join (flowDir config0) ''flows.json'') (FlowsDoc []) world1_failing
       = (Some ENOSPC, w')"
    and k: "console w' = []"
    by (simp add: sample_defs fs_defs)
  from saveFlows_write_error_logged [OF c(1) e] saveFlows_write_error_logged [OF c(2) f]
    c e f k
  show ?thesis
    by simp
qed

text \<open>
  A registry file that is read-only: \<open>saveFlows\<close> returns normally; \<open>createFlow\<close> for a
  second flow, whose registry write is refused in the same way, prints the error and
  then its success message, and the registry does not hold the new flow.
\<close>

theorem saveFlows_swallows_counterexample:
  "fst (fs_writeFile (path_join root0 ''flows.json'') (FlowsDoc []) world1_locked) = Some EACCES
   \<and> fst (saveFlows [] world1_locked) = Returned
   \<and> console (snd (saveFlows [] world1_locked)) = [ErrMsg ''Error saving flows:'' EACCES]
   \<and> fst (createFlow build_answers world1_locked) = Returned
   \<and> console (snd (createFlow build_answers world1_locked))
       = [ErrMsg ''Error saving flows:'' EACCES,
          Log ''Flow created successfully! File location: /home/u/.flow/commands/build/script.sh'']
   \<and> fst (loadFlows (snd (createFlow build_answers world1_locked))) = FlowArray [deploy]"
  by (simp add: command_defs sample_defs fs_defs js_defs generate_def replaceAll_comma_def
        render_def)

section \<open>Uniqueness of flow names\<close>

text \<open>The \<open>validate\<close> callback rejects every value, with the same message.\<close>

lemma validate_flowName_rejects:
  "validate_flowName v w = Rejected ''Please enter a valid flow name''"
  by (simp add: validate_flowName_def js_find_def js_array_def)

text \<open>
  Claim C6 at a failing input. The callback that should refuse a name already in the
  registry answers \<open>Please enter a valid flow name\<close> for every value \<open>v\<close> in every
  state, so a fresh valid name is refused and a duplicate is never reported as one; and
  \<open>createFlow\<close> itself does not compare the name with the registry: created a second
  time, \<open>deploy\<close> is appended a second time and the registry grows from one record to
  two of the same name.
\<close>

theorem duplicate_name_not_refused:
  "validate_flowName v w = Rejected ''Please enter a valid flow name''
   \<and> name_pattern ''deploy''
   \<and> fst (loadFlows world1) = FlowArray [deploy]
   \<and> fst (createFlow deploy_answers world1) = Returned
   \<and> fst (loadFlows (snd (createFlow deploy_answers world1))) = FlowArray [deploy, deploy]"
  by (simp add: validate_flowName_rejects name_pattern_def name_char_def)
     (simp add: command_defs sample_defs fs_defs js_defs generate_def replaceAll_comma_def)

section \<open>Deleting a flow\<close>

text \<open>When the removal of the script fails, \<open>deleteFlow\<close> reports the error and
  writes nothing: the registry is the one that was loaded.\<close>

lemma deleteFlow_rm_fails:
  assumes "configFile w = Holds c" "initialized c" "loadFlows w = (FlowArray fl, w1)"
    and "findIndex (\<lambda>f. name f = n) fl = Some i"
    and "fs_rm_recursive (script (fl ! i)) w1 = Inl e"
  shows "deleteFlow n w = (Returned, say (ErrMsg ''Error deleting flow:'' e) w1)"
  using assms by (simp add: deleteFlow_def loadConfig_def js_array_def)

text \<open>
  Claim C3 at a failing input. Deleting \<open>deploy\<close> succeeds, removes the script file and
  the record, and leaves the flow's own directory \<open>commands/deploy\<close> in place: the path
  given to \<open>fs.rm\<close> is the script file, not the directory that holds it.
\<close>

theorem deleteFlow_leaves_flow_directory:
  "fst (deleteFlow ''deploy'' world1) = Returned
   \<and> console (snd (deleteFlow ''deploy'' world1)) = [Log ''Flow deleted successfully!'']
   \<and> fst (loadFlows (snd (deleteFlow ''deploy'' world1))) = FlowArray []
   \<and> files (snd (deleteFlow ''deploy'' world1)) (script deploy) = None
   \<and> files world1 deploy_dir = Some Dir
   \<and> files (snd (deleteFlow ''deploy'' world1)) deploy_dir = Some Dir"
  by (simp add: command_defs sample_defs fs_defs js_defs splice1_def)

section \<open>Reinitializing\<close>

text \<open>With an empty registry \<open>reinitialize\<close> returns at once, whatever the answers and
  the shell.\<close>

lemma reinitialize_no_flows:
  assumes "configFile w = Holds c" "loadFlows w = (FlowArray [], w1)"
  shows "reinitialize a sh w = (Returned, w1)"
  using assms by (simp add: reinitialize_def loadConfig_def js_length_gt_0_def)

text \<open>
  Claim C4 at a failing input. With no flow in the registry, \<open>reinitialize\<close> asks
  nothing and changes nothing: no storage root or terminal profile is collected, the
  settings are not written, nothing is printed. (It does not present the choice between
  moving, deleting and cancelling either.)
\<close>

theorem reinitialize_without_flows_is_silent:
  "fst (loadFlows world0) = FlowArray []
   \<and> reinitialize a sh world0 = (Returned, world0)"
  by (simp add: reinitialize_def loadFlows_def loadConfig_def sample_defs fs_defs js_defs)

lemma move_command_sample:
  "move_command (config0\<lparr>initialized := b\<rparr>) new_root
     = Some (''mv /home/u/.flow /home/u/flows2; echo '' @ COMPLETED_MOVE @ ''/home/u/flows2'')"
  by (simp add: move_command_def render_def sample_defs)

lemma move_tree_vacates: "prefix src q \<Longrightarrow> \<not> prefix dst q \<Longrightarrow> move_tree src dst fs q = None"
  by (simp add: move_tree_def)

text \<open>
  Claim C9 at a failing input. With one flow and the move choice, on a shell where the
  move command succeeds, the storage root is moved and the settings name the new root;
  the record of \<open>deploy\<close> is kept as it was, and its \<open>script\<close>, an absolute path below
  the old root, names no file any more: the script now lies below the new root. On a
  shell where the tree is moved and the command line then ends with a non-zero status
  (its last line, \<open>New location:...\<close>, is not a command), \<open>execSync\<close> throws: the
  settings still name the old root, where no registry is left.
\<close>

theorem reinitialize_move_leaves_stale_scripts:
  "fst (reinitialize move_answers sh_moves world1) = Returned
   \<and> configFile (snd (reinitialize move_answers sh_moves world1))
       = Holds \<lparr>flowDir = new_root, flowCommandDir = path_join new_root ''commands'',
                terminalProfile = ''bash'', defaultFlowPath = ''.'', initialized = True\<rparr>
   \<and> fst (loadFlows (snd (reinitialize move_answers sh_moves world1))) = FlowArray [deploy]
   \<and> script deploy = [''home'', ''u'', ''.flow'', ''commands'', ''deploy'', ''script.sh'']
   \<and> files (snd (reinitialize move_answers sh_moves world1)) (script deploy) = None
   \<and> files (snd (reinitialize move_answers sh_moves world1))
        [''home'', ''u'', ''flows2'', ''commands'', ''deploy'', ''script.sh'']
       = Some (File (NotJson (''#!/bin/bash'' @ nl @ nl @ ''echo a'' @ nl @ nl @ ''echo b'')))
   \<and> fst (reinitialize move_answers sh_moves_then_fails world1)
       = Threw (ChildFailed ''New: not found'')
   \<and> configFile (snd (reinitialize move_answers sh_moves_then_fails world1)) = Holds config0
   \<and> files (snd (reinitialize move_answers sh_moves_then_fails world1))
        (path_join root0 ''flows.json'') = None
   \<and> fst (loadFlows (snd (reinitialize move_answers sh_moves_then_fails world1))) = FlowArray []"
proof -
  have r: "reinitialize move_answers sh_moves world1 =
      (Returned,
       (spawn (''mv /home/u/.flow /home/u/flows2; echo '' @ COMPLETED_MOVE @ ''/home/u/flows2'')
          world1)
       \<lparr>files := move_tree root0 new_root (files world1),
        configFile := Holds (config0\<lparr>flowDir := new_root,
                               flowCommandDir := path_join new_root ''commands'',
                               initialized := True\<rparr>)\<rparr>)"
    unfolding reinitialize_def loadFlows_world1
    using move_command_sample [of True]
    by (simp add: loadConfig_def execSync_def sh_moves_def saveConfig_def js_defs
        move_answers_def config0_def world1_def world0_def spawn_def)
  have t: "reinitialize move_answers sh_moves_then_fails world1 =
      (Threw (ChildFailed ''New: not found''),
       (spawn (''mv /home/u/.flow /home/u/flows2; echo '' @ COMPLETED_MOVE @ ''/home/u/flows2'')
          world1)
       \<lparr>files := move_tree root0 new_root (files world1)\<rparr>)"
    unfolding reinitialize_def loadFlows_world1
    using move_command_sample [of True]
    by (simp add: loadConfig_def execSync_def sh_moves_then_fails_def saveConfig_def js_defs
        move_answers_def config0_def world1_def world0_def spawn_def)
  show ?thesis
    unfolding r t
    by (simp add: loadFlows_def loadConfig_def sample_defs fs_defs js_defs move_tree_def
        spawn_def)
qed

end
